theory Spec2Isabelle
  imports Complex_Main "HOL-Library.Multiset" "HOL-Library.Char_ord" "HOL-Library.List_Lexorder"
begin

section \<open>Python values\<close>

text \<open>
  The manifest and the registry's response bodies are documents decoded by Python's
  \<^verbatim>\<open>json\<close> module: \<^verbatim>\<open>None\<close>, booleans, integers, floats, strings, lists and
  dictionaries with string keys. A dictionary is an association list in insertion order.
  Strings are lists of characters; Python compares them character by character, the
  shorter of two strings first when one is a prefix of the other, which is the order of
  \<^typ>\<open>char list\<close> used below.
\<close>

datatype pyval =
    PyNone
  | PyBool bool
  | PyInt int
  | PyFloat real
  | PyStr string
  | PyList "pyval list"
  | PyDict "(string \<times> pyval) list"

section \<open>Package\<close>

text \<open>
  \<^verbatim>\<open>@dataclass class Package: namespace: str; name: str; version: str\<close>.
  The fields \<^verbatim>\<open>namespace\<close> and \<^verbatim>\<open>name\<close> only ever hold the strings that
  \<^verbatim>\<open>str.split\<close> returns. The field \<^verbatim>\<open>version\<close> is assigned
  \<^verbatim>\<open>latest["version_number"]\<close> unchecked in \<^verbatim>\<open>get_latest\<close>, so it holds
  whatever value the response carries there.
\<close>

record package =
  namespace :: string
  name :: string
  version :: pyval

text \<open>
  The exceptions the program can raise. \<^verbatim>\<open>ValueError_parse s\<close> is
  \<^verbatim>\<open>ValueError('Failed to parse package name "s"')\<close> of \<^verbatim>\<open>Package.from_str\<close>;
  \<^verbatim>\<open>ValueError_latest pkg err\<close> is
  \<^verbatim>\<open>ValueError(f"Failed to get latest version for package {pkg=}") from err\<close> of
  \<^verbatim>\<open>update_manifest_deps\<close>; \<^verbatim>\<open>ValueError_max_workers\<close> is what
  \<^verbatim>\<open>ThreadPoolExecutor\<close> raises for \<^verbatim>\<open>max_workers <= 0\<close>;
  \<^verbatim>\<open>RequestException\<close> stands for any exception \<^verbatim>\<open>requests.get\<close> itself raises
  (connection error, timeout); \<^verbatim>\<open>HTTPError\<close> is raised by
  \<^verbatim>\<open>raise_for_status\<close>; \<^verbatim>\<open>JSONDecodeError\<close> by \<^verbatim>\<open>response.json()\<close> and
  \<^verbatim>\<open>json.loads\<close>; \<^verbatim>\<open>FileNotFoundError\<close> by \<^verbatim>\<open>read_text\<close> and
  \<^verbatim>\<open>OSError\<close> by \<^verbatim>\<open>write_text\<close>, each with the path. \<^verbatim>\<open>NoSuchObject\<close> is not
  a Python exception: it is the model's answer to a reference that names no object of the
  heap.
\<close>

datatype exn =
    ValueError_parse string
  | ValueError_latest package exn
  | ValueError_max_workers
  | RequestException
  | HTTPError nat
  | JSONDecodeError
  | KeyError string
  | TypeError
  | AttributeError
  | FileNotFoundError string
  | OSError string
  | NoSuchObject

text \<open>\<^verbatim>\<open>s.split("-")\<close>: the maximal dash-free pieces of \<open>s\<close>, in order; never empty.\<close>

fun split_dash :: "string \<Rightarrow> string list" where
  "split_dash [] = [[]]"
| "split_dash (c # cs) =
     (if c = CHR ''-'' then [] # split_dash cs
      else (case split_dash cs of
              [] \<Rightarrow> [[c]]
            | w # ws \<Rightarrow> (c # w) # ws))"

text \<open>
  \<^verbatim>\<open>Package.from_str\<close>: the unpacking \<^verbatim>\<open>namespace, name, version = full_name.split("-")\<close>
  raises \<^verbatim>\<open>ValueError\<close> unless the list has exactly three elements; the handler
  re-raises it with the package name.
\<close>

definition from_str :: "string \<Rightarrow> exn + package" where
  "from_str full_name =
     (case split_dash full_name of
        [ns, nm, ver] \<Rightarrow> Inr \<lparr>namespace = ns, name = nm, version = PyStr ver\<rparr>
      | _ \<Rightarrow> Inl (ValueError_parse full_name))"

section \<open>The libraries the program calls\<close>

text \<open>
  What the program does not define itself is a parameter of the model:
  \<^item> \<open>requests_get url timeout\<close> is \<^verbatim>\<open>requests.get(url, timeout=timeout)\<close>: the
    response, or \<open>None\<close> when the call raises. The timeout is \<open>None\<close> when the
    call passes none, and a number of seconds otherwise.
  \<^item> \<open>builtin_str v\<close> is Python's \<^verbatim>\<open>str(v)\<close> for a value \<open>v\<close> that is not a
    string.
  \<^item> \<open>json_loads\<close> and \<open>json_dumps\<close> are \<^verbatim>\<open>json.loads\<close> (\<open>None\<close> when it
    raises) and \<^verbatim>\<open>json.dumps(_, indent=4)\<close>.
  \<^item> \<open>write_text path txt\<close> is what the file system does with
    \<^verbatim>\<open>path.write_text(txt)\<close>: it writes the text, or it refuses to open the file and
    the call raises with the disk as it was, or it breaks off and the call raises with
    some other content left in the file.
\<close>

datatype write_result = Written | Refused | Broken string

record response =
  status_code :: nat
  json_body :: "pyval option"

record env =
  requests_get :: "string \<Rightarrow> real option \<Rightarrow> response option"
  builtin_str :: "pyval \<Rightarrow> string"
  json_loads :: "string \<Rightarrow> pyval option"
  json_dumps :: "pyval \<Rightarrow> string"
  write_text :: "string \<Rightarrow> string \<Rightarrow> write_result"

text \<open>\<^verbatim>\<open>str(v)\<close> as the f-string of \<^verbatim>\<open>__str__\<close> applies it to a field.\<close>

definition py_str :: "env \<Rightarrow> pyval \<Rightarrow> string" where
  "py_str e v = (case v of PyStr s \<Rightarrow> s | _ \<Rightarrow> builtin_str e v)"

text \<open>\<^verbatim>\<open>Package.__str__\<close>: \<^verbatim>\<open>f"{self.namespace}-{self.name}-{self.version}"\<close>.\<close>

definition str_of :: "env \<Rightarrow> package \<Rightarrow> string" where
  "str_of e p = namespace p @ ''-'' @ name p @ ''-'' @ py_str e (version p)"

text \<open>\<^verbatim>\<open>v[key]\<close> for a string key: only a dictionary can be subscripted by a string.\<close>

definition py_getitem :: "pyval \<Rightarrow> string \<Rightarrow> exn + pyval" where
  "py_getitem v key =
     (case v of
        PyDict kvs \<Rightarrow> (case map_of kvs key of None \<Rightarrow> Inl (KeyError key) | Some x \<Rightarrow> Inr x)
      | _ \<Rightarrow> Inl TypeError)"

text \<open>
  \<^verbatim>\<open>for elem in v\<close>: the elements of a list, the keys of a dictionary, the characters
  of a string; the other values are not iterable.
\<close>

definition py_iter :: "pyval \<Rightarrow> exn + pyval list" where
  "py_iter v =
     (case v of
        PyList xs \<Rightarrow> Inr xs
      | PyDict kvs \<Rightarrow> Inr (map (\<lambda>kv. PyStr (fst kv)) kvs)
      | PyStr s \<Rightarrow> Inr (map (\<lambda>c. PyStr [c]) s)
      | _ \<Rightarrow> Inl TypeError)"

text \<open>\<^verbatim>\<open>d[key] = v\<close> on a dictionary: an existing key keeps its place, a new one goes last.\<close>

fun dict_set :: "(string \<times> pyval) list \<Rightarrow> string \<Rightarrow> pyval \<Rightarrow> (string \<times> pyval) list" where
  "dict_set [] key v = [(key, v)]"
| "dict_set ((k, x) # kvs) key v =
     (if k = key then (k, v) # kvs else (k, x) # dict_set kvs key v)"

section \<open>The state the program acts on\<close>

text \<open>
  \<^item> \<open>objects\<close>: the heap. A reference is an index into it; each entry is a whole
    document, so two references are two independent objects. Allocation appends.
  \<^item> \<open>sent\<close>: the HTTP requests issued so far, each with its URL and the timeout it
    carried.
  \<^item> \<open>files\<close>: the text files on disk, by path.
\<close>

type_synonym ref = nat

record request =
  url :: string
  timeout :: "real option"

record state =
  objects :: "pyval list"
  sent :: "request list"
  files :: "string \<rightharpoonup> string"

definition alloc :: "pyval \<Rightarrow> state \<Rightarrow> ref \<times> state" where
  "alloc v st = (length (objects st), st\<lparr>objects := objects st @ [v]\<rparr>)"

definition deref :: "state \<Rightarrow> ref \<Rightarrow> pyval option" where
  "deref st r = (if r < length (objects st) then Some (objects st ! r) else None)"

text \<open>\<^verbatim>\<open>copy.deepcopy\<close>: a new object with the same content.\<close>

definition deepcopy :: "ref \<Rightarrow> state \<Rightarrow> (ref \<times> state) option" where
  "deepcopy r st = (case deref st r of None \<Rightarrow> None | Some v \<Rightarrow> Some (alloc v st))"

text \<open>\<^verbatim>\<open>obj[key] = v\<close> on the object a reference names.\<close>

definition setitem :: "ref \<Rightarrow> string \<Rightarrow> pyval \<Rightarrow> state \<Rightarrow> exn + state" where
  "setitem r key v st =
     (case deref st r of
        None \<Rightarrow> Inl NoSuchObject
      | Some (PyDict kvs) \<Rightarrow> Inr (st\<lparr>objects := (objects st)[r := PyDict (dict_set kvs key v)]\<rparr>)
      | Some _ \<Rightarrow> Inl TypeError)"

section \<open>Registry client\<close>

definition URL_API_EXP :: string where
  "URL_API_EXP = ''https://thunderstore.io/api/experimental''"

definition DEFAULT_MAX_WORKERS :: int where
  "DEFAULT_MAX_WORKERS = 5"

definition TIMEOUT :: real where
  "TIMEOUT = 10"

definition package_url :: "package \<Rightarrow> string" where
  "package_url p = URL_API_EXP @ ''/package/'' @ namespace p @ ''/'' @ name p @ ''/''"

text \<open>
  \<^verbatim>\<open>Response.raise_for_status\<close> of the requests library raises \<^verbatim>\<open>HTTPError\<close> for
  the client and server error statuses, 400 to 599, and for no other.
\<close>

definition raise_for_status :: "response \<Rightarrow> exn option" where
  "raise_for_status resp =
     (if 400 \<le> status_code resp \<and> status_code resp < 600
      then Some (HTTPError (status_code resp)) else None)"

text \<open>
  What \<^verbatim>\<open>get_latest\<close> does with the answer of \<^verbatim>\<open>requests.get\<close>:
  \<^verbatim>\<open>raise_for_status\<close>, then \<^verbatim>\<open>response.json()["latest"]\<close>, then
  \<^verbatim>\<open>latest["version_number"]\<close> as the version of a new package.
\<close>

definition latest_of :: "package \<Rightarrow> response option \<Rightarrow> exn + package" where
  "latest_of p answer =
     (case answer of
        None \<Rightarrow> Inl RequestException
      | Some resp \<Rightarrow>
          (case raise_for_status resp of
             Some err \<Rightarrow> Inl err
           | None \<Rightarrow>
               (case json_body resp of
                  None \<Rightarrow> Inl JSONDecodeError
                | Some body \<Rightarrow>
                    (case py_getitem body ''latest'' of
                       Inl err \<Rightarrow> Inl err
                     | Inr latest \<Rightarrow>
                         (case py_getitem latest ''version_number'' of
                            Inl err \<Rightarrow> Inl err
                          | Inr v \<Rightarrow>
                              Inr \<lparr>namespace = namespace p, name = name p, version = v\<rparr>)))))"

text \<open>
  \<^verbatim>\<open>Package.get_latest(self, timeout=_TIMEOUT)\<close> of \<^verbatim>\<open>update_pkg_deps/main.py\<close>.
  The argument \<open>t\<close> is \<open>None\<close> when the caller leaves the timeout out, so that the
  default applies. The request is logged in \<open>sent\<close>.
\<close>

definition get_latest :: "env \<Rightarrow> real option \<Rightarrow> package \<Rightarrow> state \<Rightarrow> (exn + package) \<times> state" where
  "get_latest e t p st =
     (let tmo = (case t of None \<Rightarrow> TIMEOUT | Some x \<Rightarrow> x);
          req = \<lparr>url = package_url p, timeout = Some tmo\<rparr>;
          answer = requests_get e (url req) (timeout req)
      in (latest_of p answer, st\<lparr>sent := sent st @ [req]\<rparr>))"

text \<open>
  \<^verbatim>\<open>Package.get_latest(self)\<close> of the earlier script \<^verbatim>\<open>update_pkg_deps.py\<close>: the
  same, but \<^verbatim>\<open>requests.get(url)\<close> is called with no timeout.
\<close>

definition get_latest_pkg_deps :: "env \<Rightarrow> package \<Rightarrow> state \<Rightarrow> (exn + package) \<times> state" where
  "get_latest_pkg_deps e p st =
     (let req = \<lparr>url = package_url p, timeout = None\<rparr>;
          answer = requests_get e (url req) (timeout req)
      in (latest_of p answer, st\<lparr>sent := sent st @ [req]\<rparr>))"

text \<open>
  \<^verbatim>\<open>Package.get_latest(self)\<close> of the earliest script \<^verbatim>\<open>update_deps.py\<close>:
  \<^verbatim>\<open>requests.get(url).json()["latest"]\<close>, with no timeout and no
  \<^verbatim>\<open>raise_for_status\<close>, so the body is read whatever the status is.
\<close>

definition latest_of_update_deps :: "package \<Rightarrow> response option \<Rightarrow> exn + package" where
  "latest_of_update_deps p answer =
     (case answer of
        None \<Rightarrow> Inl RequestException
      | Some resp \<Rightarrow>
          (case json_body resp of
             None \<Rightarrow> Inl JSONDecodeError
           | Some body \<Rightarrow>
               (case py_getitem body ''latest'' of
                  Inl err \<Rightarrow> Inl err
                | Inr latest \<Rightarrow>
                    (case py_getitem latest ''version_number'' of
                       Inl err \<Rightarrow> Inl err
                     | Inr v \<Rightarrow>
                         Inr \<lparr>namespace = namespace p, name = name p, version = v\<rparr>))))"

definition get_latest_update_deps :: "env \<Rightarrow> package \<Rightarrow> state \<Rightarrow> (exn + package) \<times> state" where
  "get_latest_update_deps e p st =
     (let req = \<lparr>url = package_url p, timeout = None\<rparr>;
          answer = requests_get e (url req) (timeout req)
      in (latest_of_update_deps p answer, st\<lparr>sent := sent st @ [req]\<rparr>))"

section \<open>Concurrent updater\<close>

text \<open>
  \<^verbatim>\<open>{executor.submit(pkg.get_latest): pkg for pkg in deps_orig}\<close>: one task per package,
  each with the default timeout. Leaving the \<^verbatim>\<open>with\<close> block waits for every submitted
  task, also when the loop raised, so every task runs; a future is modelled by its
  package and the outcome of its task. The requests are logged in submission order.
\<close>

fun submit_all :: "env \<Rightarrow> package list \<Rightarrow> state \<Rightarrow> (package \<times> (exn + package)) list \<times> state" where
  "submit_all e [] st = ([], st)"
| "submit_all e (p # ps) st =
     (let (res, st1) = get_latest e None p st;
          (futs, st2) = submit_all e ps st1
      in ((p, res) # futs, st2))"

text \<open>
  \<^verbatim>\<open>concurrent.futures.as_completed\<close> yields the futures in the order in which they
  complete, which the program does not control. The schedule \<open>sched\<close> stands for that
  order: its head picks, among the futures still pending, the one that completes next.
  Every schedule gives an order, and every order comes from a schedule
  (\<open>as_completed_any_order\<close> below).
\<close>

fun as_completed :: "nat list \<Rightarrow> 'a list \<Rightarrow> 'a list" where
  "as_completed sched [] = []"
| "as_completed [] (f # fs) = f # fs"
| "as_completed (k # ks) (f # fs) =
     (let i = k mod length (f # fs)
      in (f # fs) ! i # as_completed ks (take i (f # fs) @ drop (Suc i) (f # fs)))"

text \<open>
  The loop over the completed futures: \<^verbatim>\<open>deps_latest.append(future.result())\<close>, and
  the first future whose task raised ends the loop with the \<^verbatim>\<open>ValueError\<close> that
  names its package.
\<close>

fun collect :: "(package \<times> (exn + package)) list \<Rightarrow> package list \<Rightarrow> exn + package list" where
  "collect [] deps_latest = Inr deps_latest"
| "collect ((pkg, Inr latest) # futs) deps_latest = collect futs (deps_latest @ [latest])"
| "collect ((pkg, Inl err) # futs) deps_latest = Inl (ValueError_latest pkg err)"

text \<open>
  \<^verbatim>\<open>[Package.from_str(elem) for elem in ...]\<close>: the first element that fails ends the
  comprehension. An element that is not a string has no \<^verbatim>\<open>split\<close>.
\<close>

fun parse_all :: "pyval list \<Rightarrow> exn + package list" where
  "parse_all [] = Inr []"
| "parse_all (elem # elems) =
     (case (case elem of PyStr s \<Rightarrow> from_str s | _ \<Rightarrow> Inl AttributeError) of
        Inl err \<Rightarrow> Inl err
      | Inr p \<Rightarrow> (case parse_all elems of Inl err \<Rightarrow> Inl err | Inr ps \<Rightarrow> Inr (p # ps)))"

text \<open>
  \<^verbatim>\<open>update_manifest_deps(manifest, max_workers)\<close> of \<^verbatim>\<open>update_pkg_deps/main.py\<close>.
  The manifest is passed by reference; the result is the reference the function returns,
  or the exception it raises, and the state it leaves.
\<close>

definition update_manifest_deps ::
  "env \<Rightarrow> nat list \<Rightarrow> ref \<Rightarrow> int \<Rightarrow> state \<Rightarrow> (exn + ref) \<times> state" where
  "update_manifest_deps e sched manifest max_workers st =
     (case deepcopy manifest st of
        None \<Rightarrow> (Inl NoSuchObject, st)
      | Some (m, st1) \<Rightarrow>
          (case py_getitem (objects st1 ! m) ''dependencies'' of
             Inl err \<Rightarrow> (Inl err, st1)
           | Inr deps \<Rightarrow>
               (case py_iter deps of
                  Inl err \<Rightarrow> (Inl err, st1)
                | Inr elems \<Rightarrow>
                    (case parse_all elems of
                       Inl err \<Rightarrow> (Inl err, st1)
                     | Inr deps_orig \<Rightarrow>
                         if max_workers \<le> 0 then (Inl ValueError_max_workers, st1)
                         else
                           (let (futs, st2) = submit_all e deps_orig st1
                            in (case collect (as_completed sched futs) [] of
                                  Inl err \<Rightarrow> (Inl err, st2)
                                | Inr deps_latest \<Rightarrow>
                                    (case setitem m ''dependencies''
                                            (PyList (map PyStr (sort (map (str_of e) deps_latest)))) st2 of
                                       Inl err \<Rightarrow> (Inl err, st2)
                                     | Inr st3 \<Rightarrow> (Inr m, st3))))))))"

section \<open>Command line\<close>

text \<open>The parsed arguments: \<^verbatim>\<open>--input\<close>, \<^verbatim>\<open>--output\<close>, \<^verbatim>\<open>--max-workers\<close>.\<close>

record args =
  input_path :: string
  output_path :: string
  max_workers :: int

text \<open>
  \<^verbatim>\<open>main\<close>: read and decode the input file, update, write the output file. The
  output file is only touched after \<^verbatim>\<open>update_manifest_deps\<close> has returned. Logging
  is left out.
\<close>

definition main :: "env \<Rightarrow> nat list \<Rightarrow> args \<Rightarrow> state \<Rightarrow> (exn + unit) \<times> state" where
  "main e sched a st =
     (case files st (input_path a) of
        None \<Rightarrow> (Inl (FileNotFoundError (input_path a)), st)
      | Some txt \<Rightarrow>
          (case json_loads e txt of
             None \<Rightarrow> (Inl JSONDecodeError, st)
           | Some doc \<Rightarrow>
               (let (manifest_orig, st1) = alloc doc st
                in (case update_manifest_deps e sched manifest_orig (max_workers a) st1 of
                      (Inl err, st2) \<Rightarrow> (Inl err, st2)
                    | (Inr manifest_updated, st2) \<Rightarrow>
                        (let txt = json_dumps e (objects st2 ! manifest_updated)
                         in (case write_text e (output_path a) txt of
                               Written \<Rightarrow>
                                 (Inr (), st2\<lparr>files := (files st2)(output_path a \<mapsto> txt)\<rparr>)
                             | Refused \<Rightarrow> (Inl (OSError (output_path a)), st2)
                             | Broken left \<Rightarrow>
                                 (Inl (OSError (output_path a)),
                                  st2\<lparr>files := (files st2)(output_path a \<mapsto> left)\<rparr>)))))))"

section \<open>Notions used to state the properties\<close>

text \<open>
  The request and the outcome of \<^verbatim>\<open>pkg.get_latest()\<close> called with no argument, as the
  worker pool calls it: the outcome is a function of the environment and the package only
  (\<open>get_latest_default\<close> below).
\<close>

definition default_request :: "package \<Rightarrow> request" where
  "default_request p = \<lparr>url = package_url p, timeout = Some TIMEOUT\<rparr>"

definition lookup :: "env \<Rightarrow> package \<Rightarrow> exn + package" where
  "lookup e p = latest_of p (requests_get e (package_url p) (Some TIMEOUT))"

text \<open>
  The package an exception is built from: only the \<^verbatim>\<open>ValueError\<close> of
  \<^verbatim>\<open>update_manifest_deps\<close> formats a package into its message (\<^verbatim>\<open>{pkg=}\<close>).
\<close>

fun exn_package :: "exn \<Rightarrow> package option" where
  "exn_package (ValueError_latest pkg err) = Some pkg"
| "exn_package _ = None"

text \<open>
  A well-formed response body, in the words of the interface description: a JSON object
  with a \<^verbatim>\<open>latest\<close> object that has a \<^verbatim>\<open>version_number\<close> field. The function gives
  that field, or \<open>None\<close> for a body of any other shape.
\<close>

fun version_number_of :: "pyval \<Rightarrow> pyval option" where
  "version_number_of (PyDict body) =
     (case map_of body ''latest'' of
        Some (PyDict latest) \<Rightarrow> map_of latest ''version_number''
      | _ \<Rightarrow> None)"
| "version_number_of _ = None"

text \<open>\<^verbatim>\<open>"-".join(parts)\<close>, the inverse of \<^verbatim>\<open>split("-")\<close>.\<close>

fun join_dash :: "string list \<Rightarrow> string" where
  "join_dash [] = []"
| "join_dash [w] = w"
| "join_dash (w # ws) = w @ CHR ''-'' # join_dash ws"

section \<open>Example data\<close>

text \<open>
  A mocked registry and manifests on which the theorems below are instantiated. The
  registry knows \<^verbatim>\<open>acme/widget\<close> (latest 1.2.0) and \<^verbatim>\<open>acme/gadget\<close> (latest 2.1.0);
  it answers \<^verbatim>\<open>acme/broken\<close> with a body that has no \<^verbatim>\<open>latest\<close> field,
  \<^verbatim>\<open>acme/moved\<close> with status 300 and a complete body, \<^verbatim>\<open>acme/gone\<close> with
  status 404; a request for any other package raises.
\<close>

definition body_with_version :: "string \<Rightarrow> pyval" where
  "body_with_version v = PyDict [(''latest'', PyDict [(''version_number'', PyStr v)])]"

definition manifest_example :: pyval where
  "manifest_example =
     PyDict [(''name'', PyStr ''LethalLuna''),
             (''dependencies'', PyList [PyStr ''acme-widget-1.0.0'', PyStr ''acme-gadget-2.1.0''])]"

definition manifest_failing :: pyval where
  "manifest_failing =
     PyDict [(''dependencies'', PyList [PyStr ''acme-widget-1.0.0'', PyStr ''acme-gone-0.3.0''])]"

definition manifest_malformed :: pyval where
  "manifest_malformed =
     PyDict [(''dependencies'', PyList [PyStr ''acme-widget-1.0.0'', PyStr ''a-b''])]"

definition mock_registry :: env where
  "mock_registry =
     \<lparr>requests_get = (\<lambda>u t.
          if u = URL_API_EXP @ ''/package/acme/widget/''
          then Some \<lparr>status_code = 200, json_body = Some (body_with_version ''1.2.0'')\<rparr>
          else if u = URL_API_EXP @ ''/package/acme/gadget/''
          then Some \<lparr>status_code = 200, json_body = Some (body_with_version ''2.1.0'')\<rparr>
          else if u = URL_API_EXP @ ''/package/acme/broken/''
          then Some \<lparr>status_code = 200, json_body = Some (PyDict [])\<rparr>
          else if u = URL_API_EXP @ ''/package/acme/moved/''
          then Some \<lparr>status_code = 300, json_body = Some (body_with_version ''3.0.0'')\<rparr>
          else if u = URL_API_EXP @ ''/package/acme/gone/''
          then Some \<lparr>status_code = 404, json_body = None\<rparr>
          else None),
       builtin_str = (\<lambda>v. ''?''),
       json_loads = (\<lambda>txt. if txt = ''failing'' then Some manifest_failing else None),
       json_dumps = (\<lambda>v. ''updated''),
       write_text = (\<lambda>path txt. Written)\<rparr>"

definition state_example :: "pyval \<Rightarrow> state" where
  "state_example doc = \<lparr>objects = [doc], sent = [], files = Map.empty\<rparr>"

definition disk_example :: state where
  "disk_example =
     \<lparr>objects = [], sent = [],
      files = [''manifest.json'' \<mapsto> ''failing'', ''out.json'' \<mapsto> ''old'']\<rparr>"

definition pkg :: "string \<Rightarrow> string \<Rightarrow> string \<Rightarrow> package" where
  "pkg ns nm ver = \<lparr>namespace = ns, name = nm, version = PyStr ver\<rparr>"

section \<open>Splitting and joining\<close>

lemma split_dash_not_Nil: "split_dash s \<noteq> []"
  by (induction s) (auto split: list.splits)

lemma split_dash_no_dash: "CHR ''-'' \<notin> set a \<Longrightarrow> split_dash a = [a]"
  by (induction a) auto

lemma split_dash_append:
  "CHR ''-'' \<notin> set a \<Longrightarrow> split_dash (a @ CHR ''-'' # rest) = a # split_dash rest"
  by (induction a) auto

lemma length_split_dash: "length (split_dash s) = Suc (count_list s CHR ''-'')"
  by (induction s) (auto split: list.splits simp: split_dash_not_Nil)

lemma split_dash_parts: "w \<in> set (split_dash s) \<Longrightarrow> CHR ''-'' \<notin> set w"
  by (induction s arbitrary: w) (auto split: list.splits if_splits)

lemma join_split_dash: "join_dash (split_dash s) = s"
proof (induction s)
  case Nil
  then show ?case by simp
next
  case (Cons c cs)
  show ?case
  proof (cases "split_dash cs")
    case Nil
    then show ?thesis using split_dash_not_Nil by blast
  next
    case (Cons w ws)
    with Cons.IH show ?thesis by (cases ws) auto
  qed
qed

lemma from_str_cases:
  "(\<exists>ns nm ver. split_dash s = [ns, nm, ver] \<and>
      from_str s = Inr \<lparr>namespace = ns, name = nm, version = PyStr ver\<rparr>)
   \<or> (length (split_dash s) \<noteq> 3 \<and> from_str s = Inl (ValueError_parse s))"
  unfolding from_str_def
  by (cases "split_dash s" rule: list.exhaust; simp split: list.splits)

lemma from_str_str_of: "from_str s = Inr p \<Longrightarrow> str_of e p = s"
  using from_str_cases [of s] join_split_dash [of s]
  by (auto simp: str_of_def py_str_def)

section \<open>The worker pool\<close>

lemma get_latest_default:
  "get_latest e None p st = (lookup e p, st\<lparr>sent := sent st @ [default_request p]\<rparr>)"
  by (simp add: get_latest_def lookup_def default_request_def)

lemma submit_all_eq:
  "submit_all e ps st =
     (map (\<lambda>p. (p, lookup e p)) ps, st\<lparr>sent := sent st @ map default_request ps\<rparr>)"
  by (induction ps arbitrary: st) (simp_all add: get_latest_default)

lemma collect_all_ok:
  "\<forall>f \<in> set futs. \<exists>q. snd f = Inr q \<Longrightarrow>
     collect futs acc = Inr (acc @ map (\<lambda>f. projr (snd f)) futs)"
  by (induction futs acc rule: collect.induct) auto

lemma collect_Inr_D:
  "collect futs acc = Inr out \<Longrightarrow>
     (\<forall>f \<in> set futs. \<exists>q. snd f = Inr q) \<and> out = acc @ map (\<lambda>f. projr (snd f)) futs"
  by (induction futs acc rule: collect.induct) auto

lemma collect_Inl_D:
  "collect futs acc = Inl err \<Longrightarrow>
     \<exists>p cause. err = ValueError_latest p cause \<and> (p, Inl cause) \<in> set futs"
  by (induction futs acc rule: collect.induct) auto

lemma collect_some_fail:
  "(p, Inl cause) \<in> set futs \<Longrightarrow> \<exists>err. collect futs acc = Inl err"
  by (induction futs acc rule: collect.induct) auto

lemma as_completed_Cons:
  "xs \<noteq> [] \<Longrightarrow>
     as_completed (k # ks) xs =
       xs ! (k mod length xs) #
       as_completed ks (take (k mod length xs) xs @ drop (Suc (k mod length xs)) xs)"
  by (cases xs) (simp_all add: Let_def)

lemma mset_remove_nth:
  "i < length xs \<Longrightarrow> mset xs = add_mset (xs ! i) (mset (take i xs @ drop (Suc i) xs))"
proof -
  assume "i < length xs"
  then have "xs = take i xs @ xs ! i # drop (Suc i) xs" by (rule id_take_nth_drop)
  then have "mset xs = mset (take i xs @ xs ! i # drop (Suc i) xs)" by simp
  then show ?thesis by simp
qed

lemma as_completed_mset: "mset (as_completed sched xs) = mset xs"
proof (induction sched xs rule: as_completed.induct)
  case (3 k ks f fs)
  define xs where "xs = f # fs"
  define i where "i = k mod length xs"
  have ne: "xs \<noteq> []" and i: "i < length xs" by (simp_all add: xs_def i_def)
  have IH: "mset (as_completed ks (take i xs @ drop (Suc i) xs)) = mset (take i xs @ drop (Suc i) xs)"
    using "3.IH" [OF refl] unfolding i_def xs_def .
  have "as_completed (k # ks) xs = xs ! i # as_completed ks (take i xs @ drop (Suc i) xs)"
    unfolding i_def by (rule as_completed_Cons [OF ne])
  then have "mset (as_completed (k # ks) xs) = add_mset (xs ! i) (mset (take i xs @ drop (Suc i) xs))"
    using IH by simp
  also have "\<dots> = mset xs" using mset_remove_nth [OF i] by simp
  finally show ?case unfolding xs_def .
qed simp_all

lemma as_completed_set: "set (as_completed sched xs) = set xs"
  using as_completed_mset [of sched xs] by (metis set_mset_mset)

lemma as_completed_any_order:
  "mset ys = mset xs \<Longrightarrow> \<exists>sched. as_completed sched xs = ys"
proof (induction ys arbitrary: xs)
  case Nil
  then have "xs = []" by simp
  then show ?case by simp
next
  case (Cons y ys)
  then have "y \<in> set xs" by (metis list.set_intros(1) set_mset_mset)
  then obtain i where i: "i < length xs" "xs ! i = y" by (auto simp: in_set_conv_nth)
  let ?rest = "take i xs @ drop (Suc i) xs"
  have "mset (y # ys) = add_mset y (mset ?rest)"
    using mset_remove_nth [OF i(1)] i(2) Cons.prems by simp
  then have "mset ys = mset ?rest" by simp
  from Cons.IH [OF this] obtain s where s: "as_completed s ?rest = ys" by blast
  have ne: "xs \<noteq> []" using i(1) by auto
  have "as_completed (i # s) xs = y # ys"
    using as_completed_Cons [OF ne, of i s] i s by simp
  then show ?case by blast
qed

lemma sort_cong_mset: "mset xs = mset ys \<Longrightarrow> sort xs = sort ys"
  for xs :: "'a::linorder list"
  by (metis properties_for_sort mset_sort sorted_sort)

section \<open>The updater\<close>

lemma map_of_dict_set: "map_of (dict_set kvs key v) key = Some v"
  by (induction kvs key v rule: dict_set.induct) auto

lemma map_of_dict_set_other: "k \<noteq> key \<Longrightarrow> map_of (dict_set kvs key v) k = map_of kvs k"
  by (induction kvs key v rule: dict_set.induct) auto

lemma update_manifest_deps_unfold:
  assumes "deref st manifest = Some (PyDict kvs)"
    and "map_of kvs ''dependencies'' = Some deps"
    and "py_iter deps = Inr elems"
    and "parse_all elems = Inr pkgs"
    and "0 < w"
  shows "update_manifest_deps e sched manifest w st =
     (case collect (as_completed sched (map (\<lambda>p. (p, lookup e p)) pkgs)) [] of
        Inl err \<Rightarrow>
          (Inl err, st\<lparr>objects := objects st @ [PyDict kvs],
                       sent := sent st @ map default_request pkgs\<rparr>)
      | Inr deps_latest \<Rightarrow>
          (Inr (length (objects st)),
           st\<lparr>objects := objects st @
                  [PyDict (dict_set kvs ''dependencies''
                     (PyList (map PyStr (sort (map (str_of e) deps_latest)))))],
               sent := sent st @ map default_request pkgs\<rparr>))"
  using assms
  by (simp add: update_manifest_deps_def deepcopy_def alloc_def py_getitem_def submit_all_eq
      setitem_def deref_def split: sum.splits)

lemma update_manifest_deps_early:
  "update_manifest_deps e sched manifest w st = (res, st') \<Longrightarrow>
     (case deref st manifest of
        None \<Rightarrow> res = Inl NoSuchObject \<and> st' = st
      | Some doc \<Rightarrow>
          (case py_getitem doc ''dependencies'' of
             Inl err \<Rightarrow> res = Inl err \<and> st' = st\<lparr>objects := objects st @ [doc]\<rparr>
           | Inr deps \<Rightarrow>
               (case py_iter deps of
                  Inl err \<Rightarrow> res = Inl err \<and> st' = st\<lparr>objects := objects st @ [doc]\<rparr>
                | Inr elems \<Rightarrow>
                    (case parse_all elems of
                       Inl err \<Rightarrow> res = Inl err \<and> st' = st\<lparr>objects := objects st @ [doc]\<rparr>
                     | Inr pkgs \<Rightarrow>
                         (if w \<le> 0
                          then res = Inl ValueError_max_workers \<and>
                               st' = st\<lparr>objects := objects st @ [doc]\<rparr>
                          else (\<exists>kvs. doc = PyDict kvs \<and>
                                  map_of kvs ''dependencies'' = Some deps))))))"
  by (auto simp add: update_manifest_deps_def deepcopy_def alloc_def py_getitem_def
      deref_def split: sum.splits option.splits pyval.splits if_splits)

lemma parse_all_Inr_D:
  "parse_all elems = Inr pkgs \<Longrightarrow> elems = map (\<lambda>p. PyStr (str_of e p)) pkgs"
proof (induction elems arbitrary: pkgs)
  case Nil
  then show ?case by simp
next
  case (Cons elem elems)
  then show ?case
    by (auto split: sum.splits pyval.splits dest: from_str_str_of [where e = e])
qed

lemma parse_all_Inl_D:
  "parse_all elems = Inl err \<Longrightarrow>
     err = AttributeError \<or>
     (\<exists>s. err = ValueError_parse s \<and> PyStr s \<in> set elems \<and> length (split_dash s) \<noteq> 3)"
proof (induction elems)
  case Nil
  then show ?case by simp
next
  case (Cons elem elems)
  show ?case
  proof (cases elem)
    case (PyStr s)
    with Cons from_str_cases [of s] show ?thesis
      by (auto split: sum.splits)
  qed (use Cons in auto)
qed

lemma parse_all_malformed:
  "PyStr s \<in> set elems \<Longrightarrow> length (split_dash s) \<noteq> 3 \<Longrightarrow> \<exists>err. parse_all elems = Inl err"
proof (induction elems)
  case Nil
  then show ?case by simp
next
  case (Cons elem elems)
  show ?case
  proof (cases elem)
    case (PyStr x)
    with Cons from_str_cases [of x] show ?thesis
      by (auto split: sum.splits)
  qed (use Cons in auto)
qed

lemma lookups_sorted:
  assumes "\<forall>p \<in> set pkgs. \<exists>q. lookup e p = Inr q"
  shows "\<exists>deps_latest.
     collect (as_completed sched (map (\<lambda>p. (p, lookup e p)) pkgs)) [] = Inr deps_latest \<and>
     sort (map (str_of e) deps_latest) = sort (map (\<lambda>p. str_of e (projr (lookup e p))) pkgs)"
proof -
  let ?futs = "map (\<lambda>p. (p, lookup e p)) pkgs"
  let ?done = "as_completed sched ?futs"
  have "\<forall>f \<in> set ?done. \<exists>q. snd f = Inr q"
    using assms by (auto simp: as_completed_set)
  then have c: "collect ?done [] = Inr (map (\<lambda>f. projr (snd f)) ?done)"
    using collect_all_ok [of ?done "[]"] by simp
  have "mset (map (\<lambda>f. str_of e (projr (snd f))) ?done)
      = image_mset (\<lambda>f. str_of e (projr (snd f))) (mset ?futs)"
    by (simp add: as_completed_mset)
  also have "\<dots> = mset (map (\<lambda>p. str_of e (projr (lookup e p))) pkgs)"
    by (simp add: image_mset.compositionality comp_def)
  finally have "sort (map (\<lambda>f. str_of e (projr (snd f))) ?done)
      = sort (map (\<lambda>p. str_of e (projr (lookup e p))) pkgs)"
    by (rule sort_cong_mset)
  with c show ?thesis by (simp add: comp_def)
qed

lemma update_manifest_deps_success:
  assumes "deref st manifest = Some (PyDict kvs)"
    and "map_of kvs ''dependencies'' = Some deps"
    and "py_iter deps = Inr elems"
    and "parse_all elems = Inr pkgs"
    and "\<forall>p \<in> set pkgs. \<exists>q. lookup e p = Inr q"
    and "0 < w"
  shows "update_manifest_deps e sched manifest w st =
     (Inr (length (objects st)),
      st\<lparr>objects := objects st @
             [PyDict (dict_set kvs ''dependencies''
                (PyList (map PyStr (sort (map (\<lambda>p. str_of e (projr (lookup e p))) pkgs)))))],
          sent := sent st @ map default_request pkgs\<rparr>)"
proof -
  from lookups_sorted [OF assms(5), of sched] obtain deps_latest where
    "collect (as_completed sched (map (\<lambda>p. (p, lookup e p)) pkgs)) [] = Inr deps_latest"
    "sort (map (str_of e) deps_latest) = sort (map (\<lambda>p. str_of e (projr (lookup e p))) pkgs)"
    by blast
  then show ?thesis
    using update_manifest_deps_unfold [OF assms(1-4) assms(6), of e sched] by simp
qed

lemma update_manifest_deps_Inr_D:
  assumes "update_manifest_deps e sched manifest w st = (Inr r, st')"
  shows "\<exists>kvs deps elems pkgs.
     deref st manifest = Some (PyDict kvs) \<and>
     map_of kvs ''dependencies'' = Some deps \<and>
     py_iter deps = Inr elems \<and>
     parse_all elems = Inr pkgs \<and>
     (\<forall>p \<in> set pkgs. \<exists>q. lookup e p = Inr q) \<and>
     0 < w"
proof -
  from update_manifest_deps_early [OF assms] obtain kvs deps elems pkgs where
    h: "deref st manifest = Some (PyDict kvs)" "map_of kvs ''dependencies'' = Some deps"
       "py_iter deps = Inr elems" "parse_all elems = Inr pkgs" "0 < w"
    by (auto split: option.splits sum.splits if_splits simp: py_getitem_def)
  let ?futs = "map (\<lambda>p. (p, lookup e p)) pkgs"
  from assms update_manifest_deps_unfold [OF h, of e sched]
  obtain deps_latest where "collect (as_completed sched ?futs) [] = Inr deps_latest"
    by (auto split: sum.splits)
  from collect_Inr_D [OF this] have "\<forall>p \<in> set pkgs. \<exists>q. lookup e p = Inr q"
    by (auto simp: as_completed_set)
  with h show ?thesis by blast
qed

lemma update_manifest_deps_frame:
  assumes "update_manifest_deps e sched manifest w st = (res, st')"
  shows "(\<exists>new. objects st' = objects st @ new) \<and>
         files st' = files st \<and>
         (\<exists>pkgs. sent st' = sent st @ map default_request pkgs) \<and>
         (\<forall>r. res = Inr r \<longrightarrow> r = length (objects st) \<and> r < length (objects st'))"
proof (cases "\<exists>kvs deps elems pkgs.
     deref st manifest = Some (PyDict kvs) \<and> map_of kvs ''dependencies'' = Some deps \<and>
     py_iter deps = Inr elems \<and> parse_all elems = Inr pkgs \<and> 0 < w")
  case True
  then obtain kvs deps elems pkgs where
    h: "deref st manifest = Some (PyDict kvs)" "map_of kvs ''dependencies'' = Some deps"
       "py_iter deps = Inr elems" "parse_all elems = Inr pkgs" "0 < w"
    by blast
  show ?thesis
    using assms update_manifest_deps_unfold [OF h, of e sched]
    by (cases "collect (as_completed sched (map (\<lambda>p. (p, lookup e p)) pkgs)) []") auto
next
  case False
  have e: "sent st = sent st @ map default_request []" by simp
  from False update_manifest_deps_early [OF assms]
  have "(\<exists>new. objects st' = objects st @ new) \<and> files st' = files st \<and> sent st' = sent st
      \<and> (\<exists>err. res = Inl err)"
    by (auto split: option.splits sum.splits if_splits simp: py_getitem_def)
  then show ?thesis using e by (metis sum.distinct(1))
qed

lemma update_manifest_deps_fails:
  assumes "deref st manifest = Some (PyDict kvs)"
    and "map_of kvs ''dependencies'' = Some deps"
    and "py_iter deps = Inr elems"
    and "parse_all elems = Inr pkgs"
    and "p \<in> set pkgs"
    and "lookup e p = Inl cause"
  shows "\<exists>err st'. update_manifest_deps e sched manifest w st = (Inl err, st') \<and>
     files st' = files st \<and>
     (0 < w \<longrightarrow> (\<exists>q c. err = ValueError_latest q c \<and> q \<in> set pkgs \<and> lookup e q = Inl c))"
proof -
  obtain res st' where u: "update_manifest_deps e sched manifest w st = (res, st')"
    by (cases "update_manifest_deps e sched manifest w st")
  from update_manifest_deps_frame [OF u] have f: "files st' = files st" by blast
  show ?thesis
  proof (cases "0 < w")
    case False
    with update_manifest_deps_early [OF u] assms(1-4) have "res = Inl ValueError_max_workers"
      by (simp add: py_getitem_def)
    with u f False show ?thesis by simp
  next
    case True
    let ?futs = "map (\<lambda>p. (p, lookup e p)) pkgs"
    have "(p, Inl cause) \<in> set (as_completed sched ?futs)"
      using assms(5,6) by (force simp: as_completed_set)
    from collect_some_fail [OF this] obtain err where
      err: "collect (as_completed sched ?futs) [] = Inl err" by blast
    from collect_Inl_D [OF err] obtain q c where
      "err = ValueError_latest q c" "(q, Inl c) \<in> set ?futs"
      by (auto simp: as_completed_set)
    then have "\<exists>q c. err = ValueError_latest q c \<and> q \<in> set pkgs \<and> lookup e q = Inl c"
      by auto
    moreover have "res = Inl err"
      using u update_manifest_deps_unfold [OF assms(1-4) True, of e sched] err by simp
    ultimately show ?thesis using u f by blast
  qed
qed


lemma version_number_of_None:
  "version_number_of body = None \<Longrightarrow>
     (\<exists>err. py_getitem body ''latest'' = Inl err \<and> exn_package err = None) \<or>
     (\<exists>latest err. py_getitem body ''latest'' = Inr latest \<and>
        py_getitem latest ''version_number'' = Inl err \<and> exn_package err = None)"
  by (cases body) (auto simp: py_getitem_def split: option.splits pyval.splits)

section \<open>The example data, evaluated\<close>

lemma lookup_widget:
  "lookup mock_registry (pkg ''acme'' ''widget'' ''1.0.0'') = Inr (pkg ''acme'' ''widget'' ''1.2.0'')"
  by (simp add: lookup_def mock_registry_def pkg_def package_url_def latest_of_def
      raise_for_status_def body_with_version_def py_getitem_def)

lemma lookup_gadget:
  "lookup mock_registry (pkg ''acme'' ''gadget'' ''2.1.0'') = Inr (pkg ''acme'' ''gadget'' ''2.1.0'')"
  by (simp add: lookup_def mock_registry_def pkg_def package_url_def latest_of_def
      raise_for_status_def body_with_version_def py_getitem_def)

lemma lookup_gone:
  "lookup mock_registry (pkg ''acme'' ''gone'' ''0.3.0'') = Inl (HTTPError 404)"
  by (simp add: lookup_def mock_registry_def pkg_def package_url_def latest_of_def
      raise_for_status_def)

lemma parse_example:
  "parse_all [PyStr ''acme-widget-1.0.0'', PyStr ''acme-gadget-2.1.0'']
     = Inr [pkg ''acme'' ''widget'' ''1.0.0'', pkg ''acme'' ''gadget'' ''2.1.0'']"
  by (simp add: from_str_def pkg_def)

lemma parse_failing:
  "parse_all [PyStr ''acme-widget-1.0.0'', PyStr ''acme-gone-0.3.0'']
     = Inr [pkg ''acme'' ''widget'' ''1.0.0'', pkg ''acme'' ''gone'' ''0.3.0'']"
  by (simp add: from_str_def pkg_def)

lemma deref_example:
  "deref (state_example manifest_example) 0 =
     Some (PyDict [(''name'', PyStr ''LethalLuna''),
       (''dependencies'', PyList [PyStr ''acme-widget-1.0.0'', PyStr ''acme-gadget-2.1.0''])])"
  by (simp add: deref_def state_example_def manifest_example_def)

lemma lookups_example:
  "\<forall>p \<in> set [pkg ''acme'' ''widget'' ''1.0.0'', pkg ''acme'' ''gadget'' ''2.1.0''].
     \<exists>q. lookup mock_registry p = Inr q"
  by (simp add: lookup_widget lookup_gadget)

lemma sorted_example:
  "sort (map (\<lambda>p. str_of mock_registry (projr (lookup mock_registry p)))
       [pkg ''acme'' ''widget'' ''1.0.0'', pkg ''acme'' ''gadget'' ''2.1.0''])
     = [''acme-gadget-2.1.0'', ''acme-widget-1.2.0'']"
  apply (simp only: list.map lookup_widget lookup_gadget sum.sel)
  apply (simp add: str_of_def py_str_def pkg_def)
  done

lemma update_example:
  assumes "0 < w"
  shows "update_manifest_deps mock_registry sched 0 w (state_example manifest_example) =
     (Inr 1,
      \<lparr>objects = [manifest_example,
         PyDict [(''name'', PyStr ''LethalLuna''),
           (''dependencies'', PyList [PyStr ''acme-gadget-2.1.0'', PyStr ''acme-widget-1.2.0''])]],
       sent = map default_request [pkg ''acme'' ''widget'' ''1.0.0'', pkg ''acme'' ''gadget'' ''2.1.0''],
       files = Map.empty\<rparr>)"
proof -
  have 2: "map_of [(''name'', PyStr ''LethalLuna''),
       (''dependencies'', PyList [PyStr ''acme-widget-1.0.0'', PyStr ''acme-gadget-2.1.0''])]
       ''dependencies'' = Some (PyList [PyStr ''acme-widget-1.0.0'', PyStr ''acme-gadget-2.1.0''])"
    by simp
  have 3: "py_iter (PyList [PyStr ''acme-widget-1.0.0'', PyStr ''acme-gadget-2.1.0''])
       = Inr [PyStr ''acme-widget-1.0.0'', PyStr ''acme-gadget-2.1.0'']"
    by (simp add: py_iter_def)
  show ?thesis
    using update_manifest_deps_success [OF deref_example 2 3 parse_example lookups_example assms, of sched]
    unfolding sorted_example by (simp add: state_example_def)
qed

section \<open>Claims\<close>

text \<open>
  C1. When the manifest's dependencies all parse and every lookup succeeds, a call of
  \<^verbatim>\<open>update_manifest_deps\<close> that returns a manifest returns one whose
  \<^verbatim>\<open>dependencies\<close> list is the serialized updated packages sorted lexicographically by
  their full identifier string; and the call does return when the pool can be created
  (\<open>0 < max_workers\<close>). The completion order \<open>sched\<close> is arbitrary and does not occur in
  the result.
\<close>

theorem update_manifest_deps_sorted:
  assumes "deref st manifest = Some (PyDict kvs)"
    and "map_of kvs ''dependencies'' = Some deps"
    and "py_iter deps = Inr elems"
    and "parse_all elems = Inr pkgs"
    and "\<forall>p \<in> set pkgs. \<exists>q. lookup e p = Inr q"
  shows "(\<forall>r st'. update_manifest_deps e sched manifest w st = (Inr r, st') \<longrightarrow>
            py_getitem (objects st' ! r) ''dependencies'' =
              Inr (PyList (map PyStr (sort (map (\<lambda>p. str_of e (projr (lookup e p))) pkgs))))) \<and>
         (0 < w \<longrightarrow> (\<exists>r st'. update_manifest_deps e sched manifest w st = (Inr r, st')))"
proof (intro conjI allI impI)
  fix r st'
  assume u: "update_manifest_deps e sched manifest w st = (Inr r, st')"
  from update_manifest_deps_Inr_D [OF u] have "0 < w" by blast
  from update_manifest_deps_success [OF assms this, of sched] u
  show "py_getitem (objects st' ! r) ''dependencies'' =
      Inr (PyList (map PyStr (sort (map (\<lambda>p. str_of e (projr (lookup e p))) pkgs))))"
    by (auto simp: py_getitem_def map_of_dict_set)
next
  assume "0 < w"
  from update_manifest_deps_success [OF assms this, of sched]
  show "\<exists>r st'. update_manifest_deps e sched manifest w st = (Inr r, st')" by blast
qed

text \<open>
  The end-to-end scenario: widget is updated to 1.2.0, gadget stays at 2.1.0, and gadget
  comes first in the output whether it completes first or last.
\<close>

theorem update_manifest_deps_sorted_witness:
  "\<exists>r st'. update_manifest_deps mock_registry [1] 0 5 (state_example manifest_example) = (Inr r, st') \<and>
     py_getitem (objects st' ! r) ''dependencies'' =
       Inr (PyList [PyStr ''acme-gadget-2.1.0'', PyStr ''acme-widget-1.2.0''])"
proof -
  have 2: "map_of [(''name'', PyStr ''LethalLuna''),
       (''dependencies'', PyList [PyStr ''acme-widget-1.0.0'', PyStr ''acme-gadget-2.1.0''])]
       ''dependencies'' = Some (PyList [PyStr ''acme-widget-1.0.0'', PyStr ''acme-gadget-2.1.0''])"
    by simp
  have 3: "py_iter (PyList [PyStr ''acme-widget-1.0.0'', PyStr ''acme-gadget-2.1.0''])
       = Inr [PyStr ''acme-widget-1.0.0'', PyStr ''acme-gadget-2.1.0'']"
    by (simp add: py_iter_def)
  have 6: "(0::int) < 5" by simp
  note t = update_manifest_deps_sorted [OF deref_example 2 3 parse_example lookups_example,
      of "[1]" 5, unfolded sorted_example]
  from t 6 obtain r st' where
    u: "update_manifest_deps mock_registry [1] 0 5 (state_example manifest_example) = (Inr r, st')"
    by blast
  with t have "py_getitem (objects st' ! r) ''dependencies'' =
       Inr (PyList (map PyStr [''acme-gadget-2.1.0'', ''acme-widget-1.2.0'']))"
    by blast
  with u show ?thesis by auto
qed

text \<open>
  C2. When the dependencies parse and the lookup of one of them fails,
  \<^verbatim>\<open>update_manifest_deps\<close> raises and returns no manifest, and the files on disk are
  what they were. When the pool is created (\<open>0 < max_workers\<close>, so that the lookups take
  place) the exception is the \<^verbatim>\<open>ValueError\<close> built from a package whose lookup
  failed, with that failure as its cause. \<^verbatim>\<open>main\<close> on a manifest file with such
  dependencies raises the same way and writes no file.
\<close>

theorem update_manifest_deps_fail_fast:
  assumes "map_of kvs ''dependencies'' = Some deps"
    and "py_iter deps = Inr elems"
    and "parse_all elems = Inr pkgs"
    and "p \<in> set pkgs"
    and "lookup e p = Inl cause"
  shows "(deref st manifest = Some (PyDict kvs) \<longrightarrow>
            (\<exists>err st'. update_manifest_deps e sched manifest w st = (Inl err, st') \<and>
               files st' = files st \<and>
               (0 < w \<longrightarrow> (\<exists>q c. err = ValueError_latest q c \<and> q \<in> set pkgs \<and>
                   lookup e q = Inl c)))) \<and>
         (files st (input_path a) = Some txt \<and> json_loads e txt = Some (PyDict kvs) \<longrightarrow>
            (\<exists>err st'. main e sched a st = (Inl err, st') \<and>
               files st' = files st \<and>
               (0 < max_workers a \<longrightarrow> (\<exists>q c. err = ValueError_latest q c \<and> q \<in> set pkgs \<and>
                   lookup e q = Inl c))))"
proof (intro conjI impI)
  assume "deref st manifest = Some (PyDict kvs)"
  from update_manifest_deps_fails [OF this assms]
  show "\<exists>err st'. update_manifest_deps e sched manifest w st = (Inl err, st') \<and>
               files st' = files st \<and>
               (0 < w \<longrightarrow> (\<exists>q c. err = ValueError_latest q c \<and> q \<in> set pkgs \<and>
                   lookup e q = Inl c))" .
next
  assume f: "files st (input_path a) = Some txt \<and> json_loads e txt = Some (PyDict kvs)"
  let ?st1 = "st\<lparr>objects := objects st @ [PyDict kvs]\<rparr>"
  have "deref ?st1 (length (objects st)) = Some (PyDict kvs)"
    by (simp add: deref_def)
  from update_manifest_deps_fails [OF this assms, of sched "max_workers a"]
  obtain err st' where
    "update_manifest_deps e sched (length (objects st)) (max_workers a) ?st1 = (Inl err, st')"
    "files st' = files st"
    "0 < max_workers a \<longrightarrow> (\<exists>q c. err = ValueError_latest q c \<and> q \<in> set pkgs \<and> lookup e q = Inl c)"
    by auto
  with f show "\<exists>err st'. main e sched a st = (Inl err, st') \<and>
               files st' = files st \<and>
               (0 < max_workers a \<longrightarrow> (\<exists>q c. err = ValueError_latest q c \<and> q \<in> set pkgs \<and>
                   lookup e q = Inl c))"
    by (simp add: main_def alloc_def)
qed

theorem update_manifest_deps_fail_fast_witness:
  "\<exists>st'. main mock_registry [] \<lparr>input_path = ''manifest.json'', output_path = ''out.json'',
            max_workers = 5\<rparr> disk_example
        = (Inl (ValueError_latest (pkg ''acme'' ''gone'' ''0.3.0'') (HTTPError 404)), st') \<and>
      files st' ''out.json'' = Some ''old''"
proof -
  let ?a = "\<lparr>input_path = ''manifest.json'', output_path = ''out.json'', max_workers = 5\<rparr>"
  let ?kvs = "[(''dependencies'', PyList [PyStr ''acme-widget-1.0.0'', PyStr ''acme-gone-0.3.0''])]"
  have 1: "map_of ?kvs ''dependencies''
      = Some (PyList [PyStr ''acme-widget-1.0.0'', PyStr ''acme-gone-0.3.0''])"
    by simp
  have 2: "py_iter (PyList [PyStr ''acme-widget-1.0.0'', PyStr ''acme-gone-0.3.0''])
      = Inr [PyStr ''acme-widget-1.0.0'', PyStr ''acme-gone-0.3.0'']"
    by (simp add: py_iter_def)
  have 4: "pkg ''acme'' ''gone'' ''0.3.0''
      \<in> set [pkg ''acme'' ''widget'' ''1.0.0'', pkg ''acme'' ''gone'' ''0.3.0'']"
    by simp
  have 5: "files disk_example (input_path ?a) = Some ''failing'' \<and>
      json_loads mock_registry ''failing'' = Some (PyDict ?kvs)"
    by (simp add: disk_example_def mock_registry_def manifest_failing_def)
  have 6: "0 < max_workers ?a" by simp
  have 7: "files disk_example ''out.json'' = Some ''old''"
    by (simp add: disk_example_def)
  from update_manifest_deps_fail_fast [OF 1 2 parse_failing 4 lookup_gone,
      of disk_example 0 "[]" 5 ?a "''failing''"] 5 6
  obtain err st' q c where
    m: "main mock_registry [] ?a disk_example = (Inl err, st')" "files st' = files disk_example"
    and q: "err = ValueError_latest q c"
      "q \<in> set [pkg ''acme'' ''widget'' ''1.0.0'', pkg ''acme'' ''gone'' ''0.3.0'']"
      "lookup mock_registry q = Inl c"
    by blast
  from q(2,3) have "q = pkg ''acme'' ''gone'' ''0.3.0'' \<and> c = HTTPError 404"
    by (auto simp: lookup_widget lookup_gone)
  with m q(1) 7 show ?thesis by simp
qed

text \<open>
  C3. \<^verbatim>\<open>from_str\<close> and \<^verbatim>\<open>__str__\<close> are mutually inverse on valid shapes: for
  components without a dash, the string \<^verbatim>\<open>ns-name-ver\<close> parses to a package that is
  serialized to the same string, and the package of three such strings is serialized to a
  string that parses to the same package.
\<close>

theorem from_str_str_of_roundtrip:
  assumes "CHR ''-'' \<notin> set ns" and "CHR ''-'' \<notin> set nm" and "CHR ''-'' \<notin> set ver"
  shows "(\<exists>p. from_str (ns @ ''-'' @ nm @ ''-'' @ ver) = Inr p \<and>
              str_of e p = ns @ ''-'' @ nm @ ''-'' @ ver) \<and>
         from_str (str_of e \<lparr>namespace = ns, name = nm, version = PyStr ver\<rparr>)
           = Inr \<lparr>namespace = ns, name = nm, version = PyStr ver\<rparr>"
proof -
  have "split_dash (ns @ CHR ''-'' # nm @ CHR ''-'' # ver) = [ns, nm, ver]"
    using assms by (simp add: split_dash_append split_dash_no_dash)
  then have "from_str (ns @ ''-'' @ nm @ ''-'' @ ver)
      = Inr \<lparr>namespace = ns, name = nm, version = PyStr ver\<rparr>"
    by (simp add: from_str_def)
  then show ?thesis by (simp add: str_of_def py_str_def)
qed

theorem from_str_str_of_roundtrip_witness:
  "from_str ''acme-widget-1.0.0'' = Inr (pkg ''acme'' ''widget'' ''1.0.0'') \<and>
   str_of mock_registry (pkg ''acme'' ''widget'' ''1.0.0'') = ''acme-widget-1.0.0''"
proof -
  have "CHR ''-'' \<notin> set ''acme''" and "CHR ''-'' \<notin> set ''widget''" and "CHR ''-'' \<notin> set ''1.0.0''"
    by simp_all
  from from_str_str_of_roundtrip [OF this, of mock_registry]
  show ?thesis by (simp add: pkg_def str_of_def py_str_def)
qed

text \<open>
  C4. \<^verbatim>\<open>from_str\<close> fails, with the \<^verbatim>\<open>ValueError\<close> that quotes the input, if and
  only if splitting the input on the dash does not give exactly three parts, and returns a
  package otherwise. \<^verbatim>\<open>from_str("a-b")\<close> and \<^verbatim>\<open>from_str("a-b-c-d")\<close> fail, and
  every string with exactly two dashes parses.
\<close>

theorem from_str_fails_iff:
  "(from_str s = Inl (ValueError_parse s) \<longleftrightarrow> length (split_dash s) \<noteq> 3) \<and>
   ((\<exists>p. from_str s = Inr p) \<longleftrightarrow> length (split_dash s) = 3) \<and>
   from_str ''a-b'' = Inl (ValueError_parse ''a-b'') \<and>
   from_str ''a-b-c-d'' = Inl (ValueError_parse ''a-b-c-d'') \<and>
   (count_list s CHR ''-'' = 2 \<longrightarrow> (\<exists>p. from_str s = Inr p))"
proof -
  have 1: "from_str s = Inl (ValueError_parse s) \<longleftrightarrow> length (split_dash s) \<noteq> 3"
    using from_str_cases [of s] by auto
  have 2: "(\<exists>p. from_str s = Inr p) \<longleftrightarrow> length (split_dash s) = 3"
    using from_str_cases [of s] by auto
  have 3: "from_str ''a-b'' = Inl (ValueError_parse ''a-b'')"
    by (simp add: from_str_def)
  have 4: "from_str ''a-b-c-d'' = Inl (ValueError_parse ''a-b-c-d'')"
    by (simp add: from_str_def)
  have 5: "count_list s CHR ''-'' = 2 \<longrightarrow> (\<exists>p. from_str s = Inr p)"
    using 2 by (simp add: length_split_dash)
  from 1 2 3 4 5 show ?thesis by blast
qed

theorem from_str_fails_iff_witness:
  "count_list ''acme-widget-1.0.0'' CHR ''-'' = 2 \<and> (\<exists>p. from_str ''acme-widget-1.0.0'' = Inr p)"
proof -
  have c: "count_list ''acme-widget-1.0.0'' CHR ''-'' = 2" by simp
  with from_str_fails_iff [of "''acme-widget-1.0.0''"] show ?thesis by blast
qed

text \<open>
  C5. Whether \<^verbatim>\<open>update_manifest_deps\<close> returns or raises, every object that existed
  before the call, the caller's manifest among them, has the content it had; a returned
  manifest is an object that did not exist before the call.
\<close>

theorem update_manifest_deps_no_mutation:
  assumes "update_manifest_deps e sched manifest w st = (res, st')"
  shows "deref st' manifest = deref st manifest \<and>
         (\<forall>r v. deref st r = Some v \<longrightarrow> deref st' r = Some v) \<and>
         (\<forall>r. res = Inr r \<longrightarrow> r \<noteq> manifest \<and> deref st r = None \<and> deref st' r \<noteq> None)"
proof -
  from update_manifest_deps_frame [OF assms] obtain new where
    new: "objects st' = objects st @ new"
    and ret: "\<forall>r. res = Inr r \<longrightarrow> r = length (objects st) \<and> r < length (objects st')"
    by blast
  have old: "\<forall>r v. deref st r = Some v \<longrightarrow> deref st' r = Some v"
    by (auto simp: deref_def new nth_append split: if_splits)
  have "deref st' manifest = deref st manifest"
  proof (cases "deref st manifest")
    case None
    with update_manifest_deps_early [OF assms] show ?thesis by simp
  next
    case (Some v)
    with old show ?thesis by simp
  qed
  moreover have "\<forall>r. res = Inr r \<longrightarrow> r \<noteq> manifest \<and> deref st r = None \<and> deref st' r \<noteq> None"
  proof (intro allI impI)
    fix r assume r: "res = Inr r"
    with ret have "r = length (objects st)" "r < length (objects st')" by auto
    moreover from r assms update_manifest_deps_Inr_D [of e sched manifest w st r st']
    have "manifest < length (objects st)" by (auto simp: deref_def split: if_splits)
    ultimately show "r \<noteq> manifest \<and> deref st r = None \<and> deref st' r \<noteq> None"
      by (auto simp: deref_def)
  qed
  ultimately show ?thesis using old by blast
qed

theorem update_manifest_deps_no_mutation_witness:
  "\<exists>st'. update_manifest_deps mock_registry [1] 0 5 (state_example manifest_example) = (Inr 1, st') \<and>
     deref st' 0 = Some manifest_example \<and> deref st' 1 \<noteq> None \<and> deref st' 1 \<noteq> Some manifest_example"
proof -
  obtain res st' where
    u: "update_manifest_deps mock_registry [1] 0 5 (state_example manifest_example) = (res, st')"
    by (cases "update_manifest_deps mock_registry [1] 0 5 (state_example manifest_example)")
  have 2: "map_of [(''name'', PyStr ''LethalLuna''),
       (''dependencies'', PyList [PyStr ''acme-widget-1.0.0'', PyStr ''acme-gadget-2.1.0''])]
       ''dependencies'' = Some (PyList [PyStr ''acme-widget-1.0.0'', PyStr ''acme-gadget-2.1.0''])"
    by simp
  have 3: "py_iter (PyList [PyStr ''acme-widget-1.0.0'', PyStr ''acme-gadget-2.1.0''])
       = Inr [PyStr ''acme-widget-1.0.0'', PyStr ''acme-gadget-2.1.0'']"
    by (simp add: py_iter_def)
  have 6: "(0::int) < 5" by simp
  have v: "update_manifest_deps mock_registry [1] 0 5 (state_example manifest_example) =
     (Inr 1, \<lparr>objects = [manifest_example,
                PyDict [(''name'', PyStr ''LethalLuna''),
                  (''dependencies'', PyList [PyStr ''acme-gadget-2.1.0'', PyStr ''acme-widget-1.2.0''])]],
              sent = map default_request [pkg ''acme'' ''widget'' ''1.0.0'', pkg ''acme'' ''gadget'' ''2.1.0''],
              files = Map.empty\<rparr>)"
    using update_manifest_deps_success [OF deref_example 2 3 parse_example lookups_example 6, of "[1]"]
    unfolding sorted_example by (simp add: state_example_def)
  have o: "deref (state_example manifest_example) 0 = Some manifest_example"
    by (simp add: deref_def state_example_def)
  from update_manifest_deps_no_mutation [OF u] o u v show ?thesis
    by (auto simp: deref_def manifest_example_def)
qed




text \<open>
  C7. When one of the manifest's dependencies is a string that does not split into
  exactly three parts, \<^verbatim>\<open>update_manifest_deps\<close> raises and the log of requests is what
  it was before the call: no lookup was issued for any entry. The exception comes from
  the first entry that does not parse: the \<^verbatim>\<open>ValueError\<close> of a malformed string, or the
  \<^verbatim>\<open>AttributeError\<close> of an entry that is not a string.
\<close>

theorem malformed_dependency_no_request:
  assumes "deref st manifest = Some (PyDict kvs)"
    and "map_of kvs ''dependencies'' = Some deps"
    and "py_iter deps = Inr elems"
    and "PyStr s \<in> set elems"
    and "length (split_dash s) \<noteq> 3"
  shows "\<exists>err st'. update_manifest_deps e sched manifest w st = (Inl err, st') \<and>
     sent st' = sent st \<and>
     (err = AttributeError \<or>
      (\<exists>s'. err = ValueError_parse s' \<and> PyStr s' \<in> set elems \<and> length (split_dash s') \<noteq> 3))"
proof -
  from parse_all_malformed [OF assms(4,5)] obtain err where err: "parse_all elems = Inl err"
    by blast
  obtain res st' where u: "update_manifest_deps e sched manifest w st = (res, st')"
    by (cases "update_manifest_deps e sched manifest w st")
  from update_manifest_deps_early [OF u] assms(1-3) err
  have "res = Inl err" "sent st' = sent st"
    by (simp_all add: py_getitem_def)
  with u parse_all_Inl_D [OF err] show ?thesis by blast
qed

theorem malformed_dependency_no_request_witness:
  "\<exists>err st'. update_manifest_deps mock_registry [] 0 5 (state_example manifest_malformed)
       = (Inl err, st') \<and> sent st' = [] \<and>
       (err = AttributeError \<or> err = ValueError_parse ''a-b'')"
proof -
  have 1: "deref (state_example manifest_malformed) 0
      = Some (PyDict [(''dependencies'', PyList [PyStr ''acme-widget-1.0.0'', PyStr ''a-b''])])"
    by (simp add: deref_def state_example_def manifest_malformed_def)
  have 2: "map_of [(''dependencies'', PyList [PyStr ''acme-widget-1.0.0'', PyStr ''a-b''])]
      ''dependencies'' = Some (PyList [PyStr ''acme-widget-1.0.0'', PyStr ''a-b''])"
    by simp
  have 3: "py_iter (PyList [PyStr ''acme-widget-1.0.0'', PyStr ''a-b''])
      = Inr [PyStr ''acme-widget-1.0.0'', PyStr ''a-b'']"
    by (simp add: py_iter_def)
  have 4: "PyStr ''a-b'' \<in> set [PyStr ''acme-widget-1.0.0'', PyStr ''a-b'']" by simp
  have 5: "length (split_dash ''a-b'') \<noteq> 3" by simp
  have 6: "length (split_dash ''acme-widget-1.0.0'') = 3" by simp
  have 7: "sent (state_example manifest_malformed) = []" by (simp add: state_example_def)
  from malformed_dependency_no_request [OF 1 2 3 4 5, of mock_registry "[]" 5] 6
  show ?thesis unfolding 7 by auto
qed

text \<open>
  C8. The one request \<^verbatim>\<open>get_latest\<close> issues carries a timeout: the caller's, or the
  default of 10 seconds when the caller gives none, and the outcome is computed from the
  answer to that request. Every request \<^verbatim>\<open>update_manifest_deps\<close> issues carries the
  default timeout.
\<close>

theorem get_latest_timeout:
  "(\<exists>req. get_latest e t p st =
            (latest_of p (requests_get e (url req) (timeout req)), st\<lparr>sent := sent st @ [req]\<rparr>) \<and>
          url req = package_url p \<and>
          timeout req = Some (case t of None \<Rightarrow> 10 | Some x \<Rightarrow> x)) \<and>
   (\<exists>reqs. sent (snd (update_manifest_deps e sched manifest w st)) = sent st @ reqs \<and>
       (\<forall>r \<in> set reqs. timeout r = Some 10))"
proof -
  obtain res st' where u: "update_manifest_deps e sched manifest w st = (res, st')"
    by (cases "update_manifest_deps e sched manifest w st")
  from update_manifest_deps_frame [OF u] obtain pkgs where
    "sent st' = sent st @ map default_request pkgs" by blast
  moreover have "\<forall>r \<in> set (map default_request pkgs). timeout r = Some 10"
    by (simp add: default_request_def TIMEOUT_def)
  ultimately have b: "\<exists>reqs. sent (snd (update_manifest_deps e sched manifest w st)) = sent st @ reqs \<and>
       (\<forall>r \<in> set reqs. timeout r = Some 10)"
    using u by (metis snd_conv)
  let ?req = "\<lparr>url = package_url p, timeout = Some (case t of None \<Rightarrow> 10 | Some x \<Rightarrow> x)\<rparr>"
  have "get_latest e t p st =
            (latest_of p (requests_get e (url ?req) (timeout ?req)), st\<lparr>sent := sent st @ [?req]\<rparr>) \<and>
          url ?req = package_url p \<and>
          timeout ?req = Some (case t of None \<Rightarrow> 10 | Some x \<Rightarrow> x)"
    by (cases t) (simp_all add: get_latest_def TIMEOUT_def Let_def)
  then have a: "\<exists>req. get_latest e t p st =
            (latest_of p (requests_get e (url req) (timeout req)), st\<lparr>sent := sent st @ [req]\<rparr>) \<and>
          url req = package_url p \<and>
          timeout req = Some (case t of None \<Rightarrow> 10 | Some x \<Rightarrow> x)"
    by (rule exI)
  from a b show ?thesis by (rule conjI)
qed

theorem get_latest_timeout_witness:
  "\<exists>reqs. sent (snd (update_manifest_deps mock_registry [] 0 5 (state_example manifest_example)))
       = reqs \<and> length reqs = 2 \<and> (\<forall>r \<in> set reqs. timeout r = Some 10)"
proof -
  have 2: "map_of [(''name'', PyStr ''LethalLuna''),
       (''dependencies'', PyList [PyStr ''acme-widget-1.0.0'', PyStr ''acme-gadget-2.1.0''])]
       ''dependencies'' = Some (PyList [PyStr ''acme-widget-1.0.0'', PyStr ''acme-gadget-2.1.0''])"
    by simp
  have 3: "py_iter (PyList [PyStr ''acme-widget-1.0.0'', PyStr ''acme-gadget-2.1.0''])
       = Inr [PyStr ''acme-widget-1.0.0'', PyStr ''acme-gadget-2.1.0'']"
    by (simp add: py_iter_def)
  have 6: "(0::int) < 5" by simp
  have "length (sent (snd (update_manifest_deps mock_registry [] 0 5 (state_example manifest_example)))) = 2"
    using update_manifest_deps_success [OF deref_example 2 3 parse_example lookups_example 6, of "[]"]
    by (simp add: state_example_def)
  moreover have "sent (state_example manifest_example) = []"
    by (simp add: state_example_def)
  ultimately show ?thesis
    using get_latest_timeout [of mock_registry None "pkg ''acme'' ''widget'' ''1.0.0''"
        "state_example manifest_example" "[]" 0 5]
    by auto
qed

text \<open>
  The two earlier scripts issue the request with no timeout.
\<close>

lemma get_latest_pkg_deps_no_timeout:
  "sent (snd (get_latest_pkg_deps e p st)) = sent st @ [\<lparr>url = package_url p, timeout = None\<rparr>]"
  by (simp add: get_latest_pkg_deps_def Let_def)

lemma get_latest_update_deps_no_timeout:
  "sent (snd (get_latest_update_deps e p st)) = sent st @ [\<lparr>url = package_url p, timeout = None\<rparr>]"
  by (simp add: get_latest_update_deps_def Let_def)

text \<open>
  C9. Two runs on the same manifest against the same registry differ in nothing that
  depends on the completion order or on the number of workers: if one run returns a
  manifest, every other run with a pool (\<open>0 < max_workers\<close>) returns the same manifest and
  leaves the same state, and any other run that returns at all returns the same manifest.
\<close>

theorem update_manifest_deps_deterministic:
  assumes "update_manifest_deps e sched1 manifest w1 st = (Inr r1, st1)"
  shows "(0 < w2 \<longrightarrow> update_manifest_deps e sched2 manifest w2 st = (Inr r1, st1)) \<and>
         (\<forall>r2 st2. update_manifest_deps e sched2 manifest w2 st = (Inr r2, st2) \<longrightarrow>
            r2 = r1 \<and> deref st2 r2 = deref st1 r1 \<and>
            py_getitem (objects st2 ! r2) ''dependencies'' =
              py_getitem (objects st1 ! r1) ''dependencies'')"
proof -
  from update_manifest_deps_Inr_D [OF assms] obtain kvs deps elems pkgs where
    h: "deref st manifest = Some (PyDict kvs)" "map_of kvs ''dependencies'' = Some deps"
       "py_iter deps = Inr elems" "parse_all elems = Inr pkgs"
       "\<forall>p \<in> set pkgs. \<exists>q. lookup e p = Inr q"
    and w1: "0 < w1"
    by blast
  have run: "update_manifest_deps e sched manifest w st = (Inr r1, st1)" if "0 < w" for sched w
  proof -
    have "update_manifest_deps e sched manifest w st = update_manifest_deps e sched1 manifest w1 st"
      unfolding update_manifest_deps_success [OF h that, of sched]
        update_manifest_deps_success [OF h w1, of sched1] ..
    then show ?thesis using assms by (rule trans)
  qed
  have same: "r2 = r1 \<and> deref st2 r2 = deref st1 r1 \<and>
      py_getitem (objects st2 ! r2) ''dependencies'' = py_getitem (objects st1 ! r1) ''dependencies''"
    if r2: "update_manifest_deps e sched2 manifest w2 st = (Inr r2, st2)" for r2 st2
  proof -
    from update_manifest_deps_Inr_D [OF r2] have "0 < w2" by blast
    from r2 run [OF this, of sched2] have "(Inr r2 :: exn + ref, st2) = (Inr r1, st1)"
      by (rule trans [OF sym])
    then have "r2 = r1" "st2 = st1" by simp_all
    then show ?thesis by (simp only: simp_thms)
  qed
  show ?thesis
  proof (intro conjI impI allI)
    assume "0 < w2"
    then show "update_manifest_deps e sched2 manifest w2 st = (Inr r1, st1)" by (rule run)
  qed (use same in blast)+
qed

theorem update_manifest_deps_deterministic_witness:
  "update_manifest_deps mock_registry [] 0 1 (state_example manifest_example)
     = update_manifest_deps mock_registry [1] 0 5 (state_example manifest_example) \<and>
   fst (update_manifest_deps mock_registry [1] 0 5 (state_example manifest_example)) = Inr 1"
proof -
  have 1: "(0::int) < 5" and 2: "(0::int) < 1" by simp_all
  note ex = update_example [OF 1, of "[1]"]
  from update_manifest_deps_deterministic [OF ex, of 1 "[]"]
  have "0 < (1::int) \<longrightarrow> update_manifest_deps mock_registry [] 0 1 (state_example manifest_example)
      = (Inr 1, \<lparr>objects = [manifest_example,
         PyDict [(''name'', PyStr ''LethalLuna''),
           (''dependencies'', PyList [PyStr ''acme-gadget-2.1.0'', PyStr ''acme-widget-1.2.0''])]],
       sent = map default_request [pkg ''acme'' ''widget'' ''1.0.0'', pkg ''acme'' ''gadget'' ''2.1.0''],
       files = Map.empty\<rparr>)"
    by (rule conjunct1)
  with 2 have "update_manifest_deps mock_registry [] 0 1 (state_example manifest_example)
      = (Inr 1, \<lparr>objects = [manifest_example,
         PyDict [(''name'', PyStr ''LethalLuna''),
           (''dependencies'', PyList [PyStr ''acme-gadget-2.1.0'', PyStr ''acme-widget-1.2.0''])]],
       sent = map default_request [pkg ''acme'' ''widget'' ''1.0.0'', pkg ''acme'' ''gadget'' ''2.1.0''],
       files = Map.empty\<rparr>)"
    by (rule rev_mp)
  then show ?thesis unfolding ex by simp
qed

text \<open>
  C10. When \<^verbatim>\<open>update_manifest_deps\<close> returns, the manifest it was given has a
  \<^verbatim>\<open>dependencies\<close> list whose entries are the serializations of packages, one package
  per entry and in order; every one of these packages was looked up with success; and the
  returned \<^verbatim>\<open>dependencies\<close> list has as many entries as the input list and is, as a
  multiset, the serializations of the updated packages, duplicates included.
\<close>

theorem update_manifest_deps_count:
  assumes "update_manifest_deps e sched manifest w st = (Inr r, st')"
  shows "\<exists>kvs deps elems pkgs out.
     deref st manifest = Some (PyDict kvs) \<and>
     map_of kvs ''dependencies'' = Some deps \<and>
     py_iter deps = Inr elems \<and>
     elems = map (\<lambda>p. PyStr (str_of e p)) pkgs \<and>
     (\<forall>p \<in> set pkgs. \<exists>q. lookup e p = Inr q) \<and>
     py_getitem (objects st' ! r) ''dependencies'' = Inr (PyList (map PyStr out)) \<and>
     length out = length elems \<and>
     mset out = mset (map (\<lambda>p. str_of e (projr (lookup e p))) pkgs)"
proof -
  from update_manifest_deps_Inr_D [OF assms] obtain kvs deps elems pkgs where
    h: "deref st manifest = Some (PyDict kvs)" "map_of kvs ''dependencies'' = Some deps"
       "py_iter deps = Inr elems" "parse_all elems = Inr pkgs"
       "\<forall>p \<in> set pkgs. \<exists>q. lookup e p = Inr q" "0 < w"
    by blast
  let ?out = "sort (map (\<lambda>p. str_of e (projr (lookup e p))) pkgs)"
  have e: "elems = map (\<lambda>p. PyStr (str_of e p)) pkgs"
    using h(4) by (rule parse_all_Inr_D)
  then have "length elems = length pkgs" by simp
  then have l: "length ?out = length elems" by simp
  have m: "mset ?out = mset (map (\<lambda>p. str_of e (projr (lookup e p))) pkgs)" by simp
  have "py_getitem (objects st' ! r) ''dependencies'' = Inr (PyList (map PyStr ?out))"
    using assms update_manifest_deps_success [OF h, of sched]
    by (auto simp: py_getitem_def map_of_dict_set)
  with h(1-3,5) e l m show ?thesis by blast
qed

theorem update_manifest_deps_count_witness:
  "\<exists>st' out. update_manifest_deps mock_registry [1] 0 5 (state_example manifest_example) = (Inr 1, st') \<and>
     py_getitem (objects st' ! 1) ''dependencies'' = Inr (PyList (map PyStr out)) \<and>
     length out = 2"
proof -
  have 1: "(0::int) < 5" by simp
  have 2: "py_iter (PyList [PyStr ''acme-widget-1.0.0'', PyStr ''acme-gadget-2.1.0''])
       = Inr [PyStr ''acme-widget-1.0.0'', PyStr ''acme-gadget-2.1.0'']"
    by (simp add: py_iter_def)
  from update_manifest_deps_count [OF update_example [OF 1, of "[1]"]] deref_example 2
  obtain out where
    "py_getitem (objects \<lparr>objects = [manifest_example,
         PyDict [(''name'', PyStr ''LethalLuna''),
           (''dependencies'', PyList [PyStr ''acme-gadget-2.1.0'', PyStr ''acme-widget-1.2.0''])]],
       sent = map default_request [pkg ''acme'' ''widget'' ''1.0.0'', pkg ''acme'' ''gadget'' ''2.1.0''],
       files = Map.empty\<rparr> ! 1) ''dependencies'' = Inr (PyList (map PyStr out))"
    "length out = 2"
    by auto
  with update_example [OF 1, of "[1]"] show ?thesis by blast
qed

end
